theory Spec2Isabelle
  imports Complex_Main
begin

section \<open>Enumerations (threads/constants.py)\<close>

text \<open>
  The string-backed enumerations of the SDK. Each member is a constructor; the
  \<open>_value\<close> function gives the string a member stands for, and \<open>_of_value\<close> is
  the lookup by value that constructing a member from a string performs.
\<close>

datatype MediaType = TEXT | TEXT_POST | IMAGE | VIDEO | CAROUSEL | CAROUSEL_ALBUM

fun MediaType_value :: "MediaType \<Rightarrow> string" where
  "MediaType_value TEXT = ''TEXT''"
| "MediaType_value TEXT_POST = ''TEXT_POST''"
| "MediaType_value IMAGE = ''IMAGE''"
| "MediaType_value VIDEO = ''VIDEO''"
| "MediaType_value CAROUSEL = ''CAROUSEL''"
| "MediaType_value CAROUSEL_ALBUM = ''CAROUSEL_ALBUM''"

definition MediaType_of_value :: "string \<Rightarrow> MediaType option" where
  "MediaType_of_value s =
     find (\<lambda>m. MediaType_value m = s) [TEXT, TEXT_POST, IMAGE, VIDEO, CAROUSEL, CAROUSEL_ALBUM]"

datatype ReplyControl = EVERYONE | ACCOUNTS_YOU_FOLLOW | MENTIONED_ONLY

fun ReplyControl_value :: "ReplyControl \<Rightarrow> string" where
  "ReplyControl_value EVERYONE = ''EVERYONE''"
| "ReplyControl_value ACCOUNTS_YOU_FOLLOW = ''ACCOUNTS_YOU_FOLLOW''"
| "ReplyControl_value MENTIONED_ONLY = ''MENTIONED_ONLY''"

datatype ContainerStatus = EXPIRED | ERROR | FINISHED | IN_PROGRESS | PUBLISHED

fun ContainerStatus_value :: "ContainerStatus \<Rightarrow> string" where
  "ContainerStatus_value EXPIRED = ''EXPIRED''"
| "ContainerStatus_value ERROR = ''ERROR''"
| "ContainerStatus_value FINISHED = ''FINISHED''"
| "ContainerStatus_value IN_PROGRESS = ''IN_PROGRESS''"
| "ContainerStatus_value PUBLISHED = ''PUBLISHED''"

definition ContainerStatus_of_value :: "string \<Rightarrow> ContainerStatus option" where
  "ContainerStatus_of_value s =
     find (\<lambda>m. ContainerStatus_value m = s) [EXPIRED, ERROR, FINISHED, IN_PROGRESS, PUBLISHED]"

section \<open>Values exchanged with the remote service\<close>

text \<open>
  A decoded JSON body. An object is the list of its items; a key is looked up with
  \<open>map_of\<close>. Numbers are integers: no code modelled here computes with a fractional one.
\<close>

datatype json =
    JNull
  | JBool bool
  | JNum int
  | JStr string
  | JArr "json list"
  | JObj "(string \<times> json) list"

text \<open>
  Formatted text (an f-string) is kept as the list of its pieces, so that a piece whose
  rendering is the language's business (a float, a JSON value, the elements of a set in
  iteration order) is carried as the value itself.
\<close>

datatype frag = S string | N int | F real | Q json | SetJoin "string list"

type_synonym fstring = "frag list"

text \<open>Python truthiness of an optional string and of an optional list.\<close>

fun truthy :: "'a list option \<Rightarrow> bool" where
  "truthy None = False"
| "truthy (Some xs) = (xs \<noteq> [])"

text \<open>\<open>str(x)\<close> of an optional string inside an f-string.\<close>

fun str_opt :: "string option \<Rightarrow> string" where
  "str_opt None = ''None''"
| "str_opt (Some s) = s"

section \<open>Exceptions (threads/exceptions.py)\<close>

record api_details =
  message :: json
  status_code :: int
  error_code :: json
  error_subcode :: json
  fbtrace_id :: json

datatype exn =
    ValidationError fstring
  | AuthenticationError api_details
  | AuthorizationError api_details
  | RateLimitError api_details
  | NotFoundError api_details
  | ThreadsAPIError api_details
  | ContainerError fstring
  | KeyError string
  | IndexError
  | TypeError
  | AttributeError
  | ValueError
  | JSONDecodeError
  | PydanticValidationError
  | TransportError string

text \<open>\<open>d.get(k, default)\<close> and \<open>d[k]\<close> on a decoded body.\<close>

fun py_get :: "json \<Rightarrow> string \<Rightarrow> json \<Rightarrow> exn + json" where
  "py_get (JObj kvs) k dflt = Inr (case map_of kvs k of None \<Rightarrow> dflt | Some v \<Rightarrow> v)"
| "py_get _ k dflt = Inl AttributeError"

fun py_getitem :: "json \<Rightarrow> string \<Rightarrow> exn + json" where
  "py_getitem (JObj kvs) k = (case map_of kvs k of None \<Rightarrow> Inl (KeyError k) | Some v \<Rightarrow> Inr v)"
| "py_getitem _ k = Inl TypeError"

definition code_in :: "json \<Rightarrow> int list \<Rightarrow> bool" where
  "code_in c ns = (case c of JNum n \<Rightarrow> n \<in> set ns | _ \<Rightarrow> False)"

text \<open>
  \<open>raise_for_error\<close> never returns: the model gives the exception it raises.
\<close>

definition raise_for_error :: "json \<Rightarrow> int \<Rightarrow> exn" where
  "raise_for_error response_data sc =
     (case py_get response_data ''error'' (JObj []) of
        Inl e \<Rightarrow> e
      | Inr err \<Rightarrow>
          (case py_get err ''message'' (JStr ''Unknown error'') of
             Inl e \<Rightarrow> e
           | Inr msg \<Rightarrow>
               (case py_get err ''code'' JNull of
                  Inl e \<Rightarrow> e
                | Inr code \<Rightarrow>
                    (case py_get err ''error_subcode'' JNull of
                       Inl e \<Rightarrow> e
                     | Inr subcode \<Rightarrow>
                         (case py_get err ''fbtrace_id'' JNull of
                            Inl e \<Rightarrow> e
                          | Inr trace \<Rightarrow>
                              (let common = \<lparr>message = msg, status_code = sc, error_code = code,
                                             error_subcode = subcode, fbtrace_id = trace\<rparr>
                               in if sc = 401 \<or> code_in code [190, 102] then AuthenticationError common
                                  else if sc = 403 \<or> code_in code [10, 200, 294] then AuthorizationError common
                                  else if sc = 429 \<or> code_in code [4, 17, 32, 613] then RateLimitError common
                                  else if sc = 404 then NotFoundError common
                                  else ThreadsAPIError common))))))"

section \<open>Models (threads/models/media.py, threads/models/post.py)\<close>

record MediaContainer =
  mc_id :: string

record MediaContainerStatus =
  mcs_id :: string
  status :: ContainerStatus
  error_message :: "string option"

definition is_ready :: "MediaContainerStatus \<Rightarrow> bool" where
  "is_ready st = (status st = FINISHED)"

definition has_error :: "MediaContainerStatus \<Rightarrow> bool" where
  "has_error st = (status st = ERROR)"

text \<open>
  \<open>MediaContainerStatus.model_validate(data)\<close>: \<open>id\<close> is a required string,
  \<open>status\<close> a required member of \<open>ContainerStatus\<close> (found by value), and
  \<open>error_message\<close> an optional string. Anything else is a validation error of the
  model library; keys the model does not declare are ignored.
\<close>

definition MediaContainerStatus_model_validate :: "json \<Rightarrow> exn + MediaContainerStatus" where
  "MediaContainerStatus_model_validate data =
     (case data of
        JObj kvs \<Rightarrow>
          (case (map_of kvs ''id'', map_of kvs ''status'') of
             (Some (JStr i), Some (JStr s)) \<Rightarrow>
               (case ContainerStatus_of_value s of
                  None \<Rightarrow> Inl PydanticValidationError
                | Some cs \<Rightarrow>
                    (case map_of kvs ''error_message'' of
                       None \<Rightarrow> Inr \<lparr>mcs_id = i, status = cs, error_message = None\<rparr>
                     | Some JNull \<Rightarrow> Inr \<lparr>mcs_id = i, status = cs, error_message = None\<rparr>
                     | Some (JStr m) \<Rightarrow> Inr \<lparr>mcs_id = i, status = cs, error_message = Some m\<rparr>
                     | Some _ \<Rightarrow> Inl PydanticValidationError))
           | _ \<Rightarrow> Inl PydanticValidationError)
      | _ \<Rightarrow> Inl PydanticValidationError)"

text \<open>\<open>MediaContainer(id=v)\<close>.\<close>

definition MediaContainer_init :: "json \<Rightarrow> exn + MediaContainer" where
  "MediaContainer_init v = (case v of JStr i \<Rightarrow> Inr \<lparr>mc_id = i\<rparr> | _ \<Rightarrow> Inl PydanticValidationError)"

typedecl datetime

type_synonym strdict = "(string \<times> string) list"

record Post =
  post_id :: string
  media_product_type :: string
  media_type :: MediaType
  media_url :: "string option"
  permalink :: "string option"
  owner :: "strdict option"
  username :: "string option"
  post_text :: "string option"
  timestamp :: "datetime option"
  shortcode :: "string option"
  thumbnail_url :: "string option"
  children :: "strdict list option"
  is_quote_post :: bool
  has_replies :: "bool option"
  root_post :: "strdict option"
  replied_to :: "strdict option"
  is_reply :: "bool option"
  is_reply_owned_by_me :: "bool option"
  reply_audience :: "ReplyControl option"
  hide_status :: "string option"

text \<open>
  \<open>Post(id=v, media_type=m)\<close>: the two given fields are validated, every other field
  takes its declared default.
\<close>

definition Post_init :: "json \<Rightarrow> string \<Rightarrow> exn + Post" where
  "Post_init v m =
     (case v of
        JStr i \<Rightarrow>
          (case MediaType_of_value m of
             None \<Rightarrow> Inl PydanticValidationError
           | Some mt \<Rightarrow>
               Inr \<lparr>post_id = i, media_product_type = ''THREADS'', media_type = mt,
                    media_url = None, permalink = None, owner = None, username = None,
                    post_text = None, timestamp = None, shortcode = None,
                    thumbnail_url = None, children = None, is_quote_post = False,
                    has_replies = None, root_post = None, replied_to = None,
                    is_reply = None, is_reply_owned_by_me = None, reply_audience = None,
                    hide_status = None\<rparr>)
      | _ \<Rightarrow> Inl PydanticValidationError)"

section \<open>The world outside the client\<close>

text \<open>
  A call either returns, raises, or finds that the scripted scenario has no further
  reply for it (\<open>Unscripted\<close>, which is nothing the program does: no handler of the
  program catches it).
\<close>

datatype 'a outcome = Return 'a | Raise exn | Unscripted

datatype http_method = GET | POST

record request =
  req_method :: http_method
  path :: fstring
  params :: "(string \<times> json) list"

text \<open>
  What the transport does with one request: it raises, or it answers with a status
  code and a body (\<open>None\<close> when the body is not JSON).
\<close>

datatype reply = Fails exn | Responds int "json option"

text \<open>
  The world holds the wall clock, the replies the transport will give to the coming
  requests (each with the time that passes until it arrives), and the requests issued
  so far, oldest first.
\<close>

record world =
  now :: real
  script :: "(real \<times> reply) list"
  calls :: "request list"

text \<open>
  \<open>response = http.get/post(path, params); data = response.json()\<close>: the pair of
  lines every remote operation starts with.
\<close>

definition http_json :: "http_method \<Rightarrow> fstring \<Rightarrow> (string \<times> json) list \<Rightarrow> world
    \<Rightarrow> (int \<times> json) outcome \<times> world" where
  "http_json m p ps w =
     (case script w of
        [] \<Rightarrow> (Unscripted, w)
      | (d, r) # rest \<Rightarrow>
          (let w' = w\<lparr>now := now w + d, script := rest,
                      calls := calls w @ [\<lparr>req_method = m, path = p, params = ps\<rparr>]\<rparr>
           in case r of
                Fails e \<Rightarrow> (Raise e, w')
              | Responds sc None \<Rightarrow> (Raise JSONDecodeError, w')
              | Responds sc (Some data) \<Rightarrow> (Return (sc, data), w')))"

text \<open>
  \<open>time.sleep(secs)\<close>: a negative length is an error; otherwise the clock advances.
  Time a sleep takes beyond \<open>secs\<close> is part of the delay of the next scripted reply.
\<close>

definition sleep :: "real \<Rightarrow> world \<Rightarrow> unit outcome \<times> world" where
  "sleep secs w = (if secs < 0 then (Raise ValueError, w) else (Return (), w\<lparr>now := now w + secs\<rparr>))"

section \<open>The client and its library collaborators\<close>

text \<open>
  Result of \<open>urllib.parse.urlparse\<close>, as far as the validators read it.
\<close>

record ParseResult =
  scheme :: string
  netloc :: string
  url_path :: string

text \<open>
  The client holds the access token. Two library functions are parameters of the
  model, so that every result holds whatever they compute: the URL parser, and the
  validation of a decoded body against the \<open>Post\<close> model.
\<close>

record client =
  access_token :: string
  urlparse :: "string \<Rightarrow> ParseResult"
  Post_model_validate :: "json \<Rightarrow> exn + Post"

text \<open>\<open>BaseSubClient._get_params\<close>: the token, then every extra that is not \<open>None\<close>.\<close>

definition get_params :: "client \<Rightarrow> (string \<times> json option) list \<Rightarrow> (string \<times> json) list" where
  "get_params cl extra =
     (''access_token'', JStr (access_token cl))
       # List.map_filter (\<lambda>(k, v). map_option (Pair k) v) extra"

text \<open>\<open>d[k] = v\<close> on a dictionary kept as the list of its items.\<close>

fun dict_set :: "string \<Rightarrow> 'v \<Rightarrow> (string \<times> 'v) list \<Rightarrow> (string \<times> 'v) list" where
  "dict_set k v [] = [(k, v)]"
| "dict_set k v ((k', v') # kvs) = (if k' = k then (k, v) # kvs else (k', v') # dict_set k v kvs)"

fun join :: "string \<Rightarrow> string list \<Rightarrow> string" where
  "join sep [] = []"
| "join sep [x] = x"
| "join sep (x # y # ys) = x @ sep @ join sep (y # ys)"

section \<open>Validators (threads/\_utils/validators.py)\<close>

definition MAX_TEXT_LENGTH :: int where
  "MAX_TEXT_LENGTH = 500"

definition SUPPORTED_IMAGE_FORMATS :: "string list" where
  "SUPPORTED_IMAGE_FORMATS = [''jpg'', ''jpeg'', ''png'', ''gif'', ''webp'']"

definition SUPPORTED_VIDEO_FORMATS :: "string list" where
  "SUPPORTED_VIDEO_FORMATS = [''mp4'', ''mov'']"

definition validate_text_length :: "string option \<Rightarrow> int \<Rightarrow> exn + unit" where
  "validate_text_length text max_length =
     (case text of
        None \<Rightarrow> Inr ()
      | Some t \<Rightarrow>
          if int (length t) > max_length
          then Inl (ValidationError [S ''Text exceeds maximum length of '', N max_length,
                 S '' characters (got '', N (int (length t)), S '' characters)''])
          else Inr ())"

text \<open>\<open>str.lower\<close> on the letters A to Z; other characters are left as they are.\<close>

definition lower_char :: "char \<Rightarrow> char" where
  "lower_char c =
     (case map_of (zip ''ABCDEFGHIJKLMNOPQRSTUVWXYZ'' ''abcdefghijklmnopqrstuvwxyz'') c of
        None \<Rightarrow> c | Some d \<Rightarrow> d)"

text \<open>\<open>p.rsplit(".", 1)[-1].lower() if "." in p else ""\<close>\<close>

definition extension_of :: "string \<Rightarrow> string" where
  "extension_of p =
     (if CHR ''.'' \<in> set p then map lower_char (rev (takeWhile (\<lambda>c. c \<noteq> CHR ''.'') (rev p)))
      else [])"

definition validate_media_url :: "client \<Rightarrow> string option \<Rightarrow> MediaType \<Rightarrow> exn + unit" where
  "validate_media_url cl url mt =
     (case url of
        None \<Rightarrow>
          if mt = IMAGE \<or> mt = VIDEO
          then Inl (ValidationError [S ''URL is required for '', S (MediaType_value mt), S '' posts''])
          else Inr ()
      | Some u \<Rightarrow>
          (let parsed = urlparse cl u in
           if scheme parsed = [] \<or> netloc parsed = []
           then Inl (ValidationError [S ''Invalid URL format: '', S u])
           else if scheme parsed \<notin> set [''http'', ''https'']
           then Inl (ValidationError [S ''URL must use http or https scheme: '', S u])
           else
             (let extension = extension_of (url_path parsed) in
              if mt = IMAGE \<and> extension \<noteq> [] \<and> extension \<notin> set SUPPORTED_IMAGE_FORMATS
              then Inl (ValidationError [S ''Unsupported image format: '', S extension,
                     S ''. Supported: '', SetJoin SUPPORTED_IMAGE_FORMATS])
              else if mt = VIDEO \<and> extension \<noteq> [] \<and> extension \<notin> set SUPPORTED_VIDEO_FORMATS
              then Inl (ValidationError [S ''Unsupported video format: '', S extension,
                     S ''. Supported: '', SetJoin SUPPORTED_VIDEO_FORMATS])
              else Inr ())))"

definition validate_carousel_items :: "string list \<Rightarrow> exn + unit" where
  "validate_carousel_items item_ids =
     (if length item_ids < 2 then Inl (ValidationError [S ''Carousel requires at least 2 items''])
      else if length item_ids > 20
      then Inl (ValidationError [S ''Carousel cannot have more than 20 items''])
      else Inr ())"

definition validate_reply_control :: "string option \<Rightarrow> exn + unit" where
  "validate_reply_control reply_control =
     (let valid_values = [''EVERYONE'', ''ACCOUNTS_YOU_FOLLOW'', ''MENTIONED_ONLY''] in
      case reply_control of
        None \<Rightarrow> Inr ()
      | Some v \<Rightarrow>
          if v \<notin> set valid_values
          then Inl (ValidationError [S ''Invalid reply_control value: '', S v,
                 S ''. Must be one of: '', SetJoin valid_values])
          else Inr ())"

section \<open>Media client (threads/\_base/media.py, threads/\_async/media.py)\<close>

text \<open>
  The two media operations the posts client calls. The validation and the parameters
  are the shared base class's; the request and the decoding are those of the
  non-blocking client, whose awaited transport call is an ordinary call here: the
  posts client below runs them in sequence either way.
\<close>

definition validate_and_build_params :: "client \<Rightarrow> string \<Rightarrow> MediaType \<Rightarrow> string option
    \<Rightarrow> string option \<Rightarrow> string option \<Rightarrow> bool \<Rightarrow> string list option \<Rightarrow> string option
    \<Rightarrow> ReplyControl option \<Rightarrow> exn + (string \<times> json) list" where
  "validate_and_build_params cl user_id mt text image_url video_url is_carousel_item
       children_ids reply_to_id reply_control =
     (case validate_text_length text MAX_TEXT_LENGTH of
        Inl e \<Rightarrow> Inl e
      | Inr _ \<Rightarrow>
          (case (case reply_control of
                   None \<Rightarrow> Inr ()
                 | Some rc \<Rightarrow> validate_reply_control (Some (ReplyControl_value rc))) of
             Inl e \<Rightarrow> Inl e
           | Inr _ \<Rightarrow>
               (case (if mt = IMAGE then validate_media_url cl image_url IMAGE
                      else if mt = VIDEO then validate_media_url cl video_url VIDEO
                      else if mt = CAROUSEL \<and> truthy children_ids
                      then validate_carousel_items (the children_ids)
                      else Inr ()) of
                  Inl e \<Rightarrow> Inl e
                | Inr _ \<Rightarrow>
                    (let ps = get_params cl
                           [(''media_type'', Some (JStr (MediaType_value mt))),
                            (''text'', map_option JStr text),
                            (''image_url'', map_option JStr image_url),
                            (''video_url'', map_option JStr video_url),
                            (''is_carousel_item'', if is_carousel_item then Some (JBool True) else None),
                            (''reply_to_id'', map_option JStr reply_to_id),
                            (''reply_control'', map_option (JStr \<circ> ReplyControl_value) reply_control)]
                     in Inr (if truthy children_ids
                             then dict_set ''children'' (JStr (join '','' (the children_ids))) ps
                             else ps)))))"

definition create_container :: "client \<Rightarrow> string \<Rightarrow> MediaType \<Rightarrow> string option
    \<Rightarrow> string option \<Rightarrow> string option \<Rightarrow> bool \<Rightarrow> string list option \<Rightarrow> string option
    \<Rightarrow> ReplyControl option \<Rightarrow> world \<Rightarrow> MediaContainer outcome \<times> world" where
  "create_container cl user_id mt text image_url video_url is_carousel_item children_ids
       reply_to_id reply_control w =
     (case validate_and_build_params cl user_id mt text image_url video_url is_carousel_item
             children_ids reply_to_id reply_control of
        Inl e \<Rightarrow> (Raise e, w)
      | Inr ps \<Rightarrow>
          (case http_json POST [S ''/'', S user_id, S ''/threads''] ps w of
             (Unscripted, w1) \<Rightarrow> (Unscripted, w1)
           | (Raise e, w1) \<Rightarrow> (Raise e, w1)
           | (Return (sc, data), w1) \<Rightarrow>
               if sc \<noteq> 200 then (Raise (raise_for_error data sc), w1)
               else (case py_getitem data ''id'' of
                       Inl e \<Rightarrow> (Raise e, w1)
                     | Inr v \<Rightarrow>
                         (case MediaContainer_init v of
                            Inl e \<Rightarrow> (Raise e, w1)
                          | Inr c \<Rightarrow> (Return c, w1)))))"

definition get_container_status :: "client \<Rightarrow> string \<Rightarrow> world
    \<Rightarrow> MediaContainerStatus outcome \<times> world" where
  "get_container_status cl container_id w =
     (case http_json GET [S ''/'', S container_id]
             (get_params cl [(''fields'', Some (JStr ''id,status,error_message''))]) w of
        (Unscripted, w1) \<Rightarrow> (Unscripted, w1)
      | (Raise e, w1) \<Rightarrow> (Raise e, w1)
      | (Return (sc, data), w1) \<Rightarrow>
          if sc \<noteq> 200 then (Raise (raise_for_error data sc), w1)
          else (case MediaContainerStatus_model_validate data of
                  Inl e \<Rightarrow> (Raise e, w1)
                | Inr st \<Rightarrow> (Return st, w1)))"

section \<open>Posts client (threads/\_base/posts.py, threads/\_sync/posts.py)\<close>

definition DEFAULT_POST_FIELDS :: "string list" where
  "DEFAULT_POST_FIELDS =
     [''id'', ''media_product_type'', ''media_type'', ''media_url'', ''permalink'', ''owner'',
      ''username'', ''text'', ''timestamp'', ''shortcode'', ''thumbnail_url'', ''children'',
      ''is_quote_post'', ''has_replies'', ''reply_audience'']"

definition determine_media_type :: "string option \<Rightarrow> string option \<Rightarrow> string option \<Rightarrow> MediaType" where
  "determine_media_type text image_url video_url =
     (if truthy video_url then VIDEO
      else if truthy image_url then IMAGE
      else TEXT)"

definition validate_publish_params :: "string option \<Rightarrow> string option \<Rightarrow> string option \<Rightarrow> exn + unit" where
  "validate_publish_params text image_url video_url =
     (case validate_text_length text MAX_TEXT_LENGTH of
        Inl e \<Rightarrow> Inl e
      | Inr _ \<Rightarrow>
          if \<not> (truthy text \<or> truthy image_url \<or> truthy video_url)
          then Inl (ValidationError [S ''At least one of text, image_url, or video_url is required''])
          else Inr ())"

definition get :: "client \<Rightarrow> json \<Rightarrow> string list option \<Rightarrow> world \<Rightarrow> Post outcome \<times> world" where
  "get cl pid field_names w =
     (let fs = (case field_names of None \<Rightarrow> DEFAULT_POST_FIELDS | Some given \<Rightarrow> given);
          ps = get_params cl [(''fields'', Some (JStr (join '','' fs)))]
      in case http_json GET [S ''/'', Q pid] ps w of
           (Unscripted, w1) \<Rightarrow> (Unscripted, w1)
         | (Raise e, w1) \<Rightarrow> (Raise e, w1)
         | (Return (sc, data), w1) \<Rightarrow>
             if sc \<noteq> 200 then (Raise (raise_for_error data sc), w1)
             else (case Post_model_validate cl data of
                     Inl e \<Rightarrow> (Raise e, w1)
                   | Inr p \<Rightarrow> (Return p, w1)))"

text \<open>The minimal \<open>Post\<close> of \<open>publish\<close>: \<open>Post(id=post_id, media_type="TEXT_POST")\<close>.\<close>

definition minimal_post :: "json \<Rightarrow> world \<Rightarrow> Post outcome \<times> world" where
  "minimal_post pid w =
     (case Post_init pid ''TEXT_POST'' of Inl e \<Rightarrow> (Raise e, w) | Inr p \<Rightarrow> (Return p, w))"

definition publish :: "client \<Rightarrow> string \<Rightarrow> string \<Rightarrow> bool \<Rightarrow> world \<Rightarrow> Post outcome \<times> world" where
  "publish cl user_id container_id fetch_post w =
     (case http_json POST [S ''/'', S user_id, S ''/threads_publish'']
             (get_params cl [(''creation_id'', Some (JStr container_id))]) w of
        (Unscripted, w1) \<Rightarrow> (Unscripted, w1)
      | (Raise e, w1) \<Rightarrow> (Raise e, w1)
      | (Return (sc, data), w1) \<Rightarrow>
          if sc \<noteq> 200 then (Raise (raise_for_error data sc), w1)
          else (case py_getitem data ''id'' of
                  Inl e \<Rightarrow> (Raise e, w1)
                | Inr pid \<Rightarrow>
                    if \<not> fetch_post then minimal_post pid w1
                    else (case get cl pid None w1 of
                            (Return p, w2) \<Rightarrow> (Return p, w2)
                          | (Raise e, w2) \<Rightarrow> minimal_post pid w2
                          | (Unscripted, w2) \<Rightarrow> (Unscripted, w2))))"

text \<open>
  The polling loop of \<open>_wait_for_container\<close>, with \<open>start_time\<close> read before it.
  Every turn takes one scripted reply, so the loop ends with the script at the latest.
\<close>

function wait_loop :: "client \<Rightarrow> string \<Rightarrow> real \<Rightarrow> real \<Rightarrow> real \<Rightarrow> world
    \<Rightarrow> MediaContainerStatus outcome \<times> world" where
  "wait_loop cl container_id poll_interval max_wait_time start_time w =
     (case get_container_status cl container_id w of
        (Unscripted, w1) \<Rightarrow> (Unscripted, w1)
      | (Raise e, w1) \<Rightarrow> (Raise e, w1)
      | (Return st, w1) \<Rightarrow>
          if is_ready st then (Return st, w1)
          else if has_error st
          then (Raise (ContainerError [S ''Container processing failed: '',
                  S (str_opt (error_message st))]), w1)
          else if status st = EXPIRED
          then (Raise (ContainerError [S ''Container expired before publishing'']), w1)
          else if now w1 - start_time \<ge> max_wait_time
          then (Raise (ContainerError [S ''Container not ready after '', F max_wait_time,
                  S ''s (status: '', S (ContainerStatus_value (status st)), S '')'']), w1)
          else (case sleep poll_interval w1 of
                  (Return _, w2) \<Rightarrow>
                    wait_loop cl container_id poll_interval max_wait_time start_time w2
                | (Raise e, w2) \<Rightarrow> (Raise e, w2)
                | (Unscripted, w2) \<Rightarrow> (Unscripted, w2)))"
  by pat_completeness auto

termination
  by (relation "measure (\<lambda>(cl, c, p, m, s, w). length (script w))")
     (auto simp: get_container_status_def http_json_def sleep_def Let_def
        split: list.splits reply.splits option.splits prod.splits if_splits sum.splits)

declare wait_loop.simps [simp del]

definition wait_for_container :: "client \<Rightarrow> string \<Rightarrow> real \<Rightarrow> real \<Rightarrow> world
    \<Rightarrow> MediaContainerStatus outcome \<times> world" where
  "wait_for_container cl container_id poll_interval max_wait_time w =
     (let start_time = now w
      in wait_loop cl container_id poll_interval max_wait_time start_time w)"

definition create_and_publish :: "client \<Rightarrow> string \<Rightarrow> string option \<Rightarrow> string option
    \<Rightarrow> string option \<Rightarrow> string option \<Rightarrow> ReplyControl option \<Rightarrow> bool \<Rightarrow> real \<Rightarrow> real
    \<Rightarrow> world \<Rightarrow> Post outcome \<times> world" where
  "create_and_publish cl user_id text image_url video_url reply_to_id reply_control
       wait_for_ready poll_interval max_wait_time w =
     (case validate_publish_params text image_url video_url of
        Inl e \<Rightarrow> (Raise e, w)
      | Inr _ \<Rightarrow>
          (let mt = determine_media_type text image_url video_url
           in case create_container cl user_id mt text image_url video_url False None
                     reply_to_id reply_control w of
                (Unscripted, w1) \<Rightarrow> (Unscripted, w1)
              | (Raise e, w1) \<Rightarrow> (Raise e, w1)
              | (Return container, w1) \<Rightarrow>
                  if wait_for_ready \<and> truthy video_url
                  then (case wait_for_container cl (mc_id container) poll_interval
                               max_wait_time w1 of
                          (Unscripted, w2) \<Rightarrow> (Unscripted, w2)
                        | (Raise e, w2) \<Rightarrow> (Raise e, w2)
                        | (Return _, w2) \<Rightarrow> publish cl user_id (mc_id container) True w2)
                  else publish cl user_id (mc_id container) True w1))"

section \<open>Rate limiter (threads/\_utils/rate\_limit.py)\<close>















section \<open>Scenarios\<close>

text \<open>
  The snapshot a reply to a status fetch decodes to, if it is a 200 whose body
  validates.
\<close>

fun snapshot_of :: "reply \<Rightarrow> MediaContainerStatus option" where
  "snapshot_of (Responds sc (Some data)) =
     (if sc = 200
      then (case MediaContainerStatus_model_validate data of Inl _ \<Rightarrow> None | Inr st \<Rightarrow> Some st)
      else None)"
| "snapshot_of _ = None"

text \<open>A reply that keeps the poller polling: a snapshot that is neither ready, failed nor expired.\<close>

definition non_terminal :: "reply \<Rightarrow> bool" where
  "non_terminal r =
     (case snapshot_of r of
        None \<Rightarrow> False
      | Some st \<Rightarrow> status st = IN_PROGRESS \<or> status st = PUBLISHED)"

text \<open>
  The fetches with delays \<open>ds\<close>, each followed by a sleep of \<open>poll_interval\<close>, all
  end before \<open>max_wait_time\<close> has elapsed, \<open>elapsed\<close> being the time already spent.
\<close>

fun in_time :: "real \<Rightarrow> real \<Rightarrow> real \<Rightarrow> real list \<Rightarrow> bool" where
  "in_time poll_interval max_wait_time elapsed [] = True"
| "in_time poll_interval max_wait_time elapsed (d # ds) =
     (elapsed + d < max_wait_time
      \<and> in_time poll_interval max_wait_time (elapsed + d + poll_interval) ds)"

text \<open>The request of a status fetch, and the requests a run has added to the log.\<close>

definition status_request :: "client \<Rightarrow> string \<Rightarrow> request" where
  "status_request cl container_id =
     \<lparr>req_method = GET, path = [S ''/'', S container_id],
      params = get_params cl [(''fields'', Some (JStr ''id,status,error_message''))]\<rparr>"

definition new_calls :: "world \<Rightarrow> world \<Rightarrow> request list" where
  "new_calls w w' = drop (length (calls w)) (calls w')"

definition is_publish_request :: "string \<Rightarrow> request \<Rightarrow> bool" where
  "is_publish_request user_id rq =
     (req_method rq = POST \<and> path rq = [S ''/'', S user_id, S ''/threads_publish''])"

text \<open>Concrete inputs for the examples: a client, a world with a given script, bodies.\<close>

definition example_client :: client where
  "example_client =
     \<lparr>access_token = ''token_123'',
      urlparse = (\<lambda>u. \<lparr>scheme = ''https'', netloc = ''example.com'', url_path = ''/video.mp4''\<rparr>),
      Post_model_validate =
        (\<lambda>data. case py_getitem data ''id'' of Inl e \<Rightarrow> Inl PydanticValidationError
                 | Inr v \<Rightarrow> Post_init v ''VIDEO'')\<rparr>"

definition world_with :: "(real \<times> reply) list \<Rightarrow> world" where
  "world_with replies = \<lparr>now = 0, script = replies, calls = []\<rparr>"

definition status_body :: "string \<Rightarrow> string \<Rightarrow> reply" where
  "status_body container_id s =
     Responds 200 (Some (JObj [(''id'', JStr container_id), (''status'', JStr s)]))"

definition id_body :: "string \<Rightarrow> reply" where
  "id_body i = Responds 200 (Some (JObj [(''id'', JStr i)]))"

text \<open>The exception the poller raises when the time is up.\<close>

definition timeout_error :: "real \<Rightarrow> ContainerStatus \<Rightarrow> exn" where
  "timeout_error max_wait_time s =
     ContainerError [S ''Container not ready after '', F max_wait_time, S ''s (status: '',
       S (ContainerStatus_value s), S '')'']"

definition error_body :: "string \<Rightarrow> string \<Rightarrow> reply" where
  "error_body container_id msg =
     Responds 200 (Some (JObj [(''id'', JStr container_id), (''status'', JStr ''ERROR''),
                               (''error_message'', JStr msg)]))"

lemmas eval_defs = world_with_def status_body_def error_body_def non_terminal_def
  MediaContainerStatus_model_validate_def ContainerStatus_of_value_def Let_def timeout_error_def

section \<open>Media-type resolution\<close>

text \<open>
  C7. For every input of \<open>create_and_publish\<close>, the media type is resolved by
  precedence: a video url that is present gives VIDEO; otherwise an image url that is
  present gives IMAGE; otherwise TEXT. In particular an image url and a video url
  together give VIDEO. Present is what the code tests: given and not the empty string.
\<close>

theorem media_type_precedence:
  "(truthy video_url \<longrightarrow> determine_media_type the_text image_url video_url = VIDEO)
   \<and> (\<not> truthy video_url \<and> truthy image_url
        \<longrightarrow> determine_media_type the_text image_url video_url = IMAGE)
   \<and> (\<not> truthy video_url \<and> \<not> truthy image_url
        \<longrightarrow> determine_media_type the_text image_url video_url = TEXT)"
  by (simp add: determine_media_type_def)

theorem media_type_precedence_witness:
  "truthy (Some ''https://example.com/v.mp4'')
   \<and> determine_media_type None (Some ''https://example.com/i.png'')
        (Some ''https://example.com/v.mp4'') = VIDEO
   \<and> determine_media_type (Some ''hi'') (Some ''https://example.com/i.png'') None = IMAGE
   \<and> determine_media_type (Some ''hi'') None None = TEXT"
  using media_type_precedence [where video_url = "Some ''https://example.com/v.mp4''"
      and the_text = None and image_url = "Some ''https://example.com/i.png''"]
    media_type_precedence [where video_url = None and the_text = "Some ''hi''"
      and image_url = "Some ''https://example.com/i.png''"]
    media_type_precedence [where video_url = None and the_text = "Some ''hi''" and image_url = None]
  by simp

section \<open>Validation before any request\<close>

text \<open>
  C5. For every input of \<open>create_and_publish\<close> whose text is longer than 500
  characters, or which supplies none of text, image url and video url, the call fails
  with a validation error and the world is the one it started in: no request was
  issued, no reply consumed, no time spent.
\<close>

theorem validation_short_circuit:
  assumes "(\<exists>t. the_text = Some t \<and> length t > 500)
           \<or> (\<not> truthy the_text \<and> \<not> truthy image_url \<and> \<not> truthy video_url)"
  shows "\<exists>msg. create_and_publish cl user_id the_text image_url video_url reply_to_id
                 reply_control wait_for_ready poll_interval max_wait_time w
               = (Raise (ValidationError msg), w)"
  using assms
  by (auto simp: create_and_publish_def validate_publish_params_def validate_text_length_def
      MAX_TEXT_LENGTH_def split: option.splits)

theorem validation_short_circuit_witness:
  "length (replicate 501 CHR ''a'') > 500
   \<and> (\<exists>msg. create_and_publish example_client ''u1'' (Some (replicate 501 CHR ''a'')) None None
                None None True 1 60 (world_with [(0, id_body ''c1'')])
              = (Raise (ValidationError msg), world_with [(0, id_body ''c1'')]))
   \<and> calls (world_with [(0, id_body ''c1'')]) = []"
  using validation_short_circuit [where the_text = "Some (replicate 501 CHR ''a'')"
      and image_url = None and video_url = None and cl = example_client and user_id = "''u1''"
      and reply_to_id = None and reply_control = None and wait_for_ready = True
      and poll_interval = 1 and max_wait_time = 60 and w = "world_with [(0, id_body ''c1'')]"]
  by (simp add: world_with_def)

section \<open>The poller\<close>

text \<open>
  One status fetch that finds a scripted snapshot; one turn of the loop on a snapshot
  that is not terminal; a run of such turns; and the turn that ends the loop.
\<close>

lemma get_container_status_snapshot:
  assumes "script w = (d, r) # rest" and "snapshot_of r = Some st"
  shows "get_container_status cl cid w =
           (Return st, w\<lparr>now := now w + d, script := rest,
                          calls := calls w @ [status_request cl cid]\<rparr>)"
proof -
  from assms(2) obtain data where r: "r = Responds 200 (Some data)"
    and v: "MediaContainerStatus_model_validate data = Inr st"
    by (cases r rule: snapshot_of.cases) (auto split: if_splits sum.splits)
  show ?thesis
    using assms(1) r v
    by (simp add: get_container_status_def http_json_def status_request_def Let_def)
qed

lemma wait_loop_continue:
  assumes "script w = (d, r) # rest" and "non_terminal r"
    and "now w + d - start < mw" and "0 \<le> poll"
  shows "wait_loop cl cid poll mw start w =
           wait_loop cl cid poll mw start
             (w\<lparr>now := now w + d + poll, script := rest,
                 calls := calls w @ [status_request cl cid]\<rparr>)"
proof -
  from assms(2) obtain st where st: "snapshot_of r = Some st"
    and nt: "status st = IN_PROGRESS \<or> status st = PUBLISHED"
    by (auto simp: non_terminal_def split: option.splits)
  show ?thesis
    apply (subst wait_loop.simps)
    using nt assms(3,4)
    apply (simp add: get_container_status_snapshot [OF assms(1) st] is_ready_def has_error_def sleep_def)
    apply (auto intro!: arg_cong [where f = "wait_loop cl cid poll mw start"])
    done
qed

lemma wait_loop_prefix:
  assumes "0 \<le> poll" and "list_all (\<lambda>x. non_terminal (snd x)) pre"
    and "in_time poll mw (now w - start) (map fst pre)"
    and "script w = pre @ rest"
  shows "wait_loop cl cid poll mw start w =
           wait_loop cl cid poll mw start
             (w\<lparr>now := now w + sum_list (map fst pre) + real (length pre) * poll,
                 script := rest,
                 calls := calls w @ replicate (length pre) (status_request cl cid)\<rparr>)"
  using assms
proof (induction pre arbitrary: w)
  case Nil
  then have "w\<lparr>script := rest\<rparr> = w" by (cases w) simp
  then show ?case by simp
next
  case (Cons a pre)
  obtain d r where a: "a = (d, r)" by (cases a)
  let ?w1 = "w\<lparr>now := now w + d + poll, script := pre @ rest,
                 calls := calls w @ [status_request cl cid]\<rparr>"
  have step: "wait_loop cl cid poll mw start w = wait_loop cl cid poll mw start ?w1"
    using Cons.prems a by (intro wait_loop_continue) auto
  have "in_time poll mw (now ?w1 - start) (map fst pre)"
    using Cons.prems(3) a by (simp add: algebra_simps)
  from Cons.IH [OF Cons.prems(1) _ this, of ] Cons.prems(2)
  have "wait_loop cl cid poll mw start ?w1 =
          wait_loop cl cid poll mw start
            (?w1\<lparr>now := now ?w1 + sum_list (map fst pre) + real (length pre) * poll,
                  script := rest,
                  calls := calls ?w1 @ replicate (length pre) (status_request cl cid)\<rparr>)"
    by simp
  moreover have "?w1\<lparr>now := now ?w1 + sum_list (map fst pre) + real (length pre) * poll,
                  script := rest,
                  calls := calls ?w1 @ replicate (length pre) (status_request cl cid)\<rparr>
        = w\<lparr>now := now w + sum_list (map fst (a # pre)) + real (length (a # pre)) * poll,
                 script := rest,
                 calls := calls w @ replicate (length (a # pre)) (status_request cl cid)\<rparr>"
    using a by (cases w) (simp add: algebra_simps)
  ultimately show ?case
    using step by simp
qed

lemma wait_loop_last:
  fixes cl :: client and cid :: string
  assumes "0 \<le> poll" and "list_all (\<lambda>x. non_terminal (snd x)) pre"
    and "in_time poll mw (now w - start) (map fst pre)"
    and "script w = pre @ (d, r) # rest" and "snapshot_of r = Some st"
  defines "w' \<equiv> w\<lparr>now := now w + sum_list (map fst pre) + real (length pre) * poll + d,
                   script := rest,
                   calls := calls w @ replicate (length pre + 1) (status_request cl cid)\<rparr>"
  shows "status st = FINISHED \<Longrightarrow> wait_loop cl cid poll mw start w = (Return st, w')"
    and "status st = ERROR \<Longrightarrow> wait_loop cl cid poll mw start w =
           (Raise (ContainerError [S ''Container processing failed: '',
                     S (str_opt (error_message st))]), w')"
    and "status st = EXPIRED \<Longrightarrow> wait_loop cl cid poll mw start w =
           (Raise (ContainerError [S ''Container expired before publishing'']), w')"
    and "non_terminal r \<Longrightarrow> mw \<le> now w' - start \<Longrightarrow>
           wait_loop cl cid poll mw start w = (Raise (timeout_error mw (status st)), w')"
proof -
  let ?w1 = "w\<lparr>now := now w + sum_list (map fst pre) + real (length pre) * poll,
                 script := (d, r) # rest,
                 calls := calls w @ replicate (length pre) (status_request cl cid)\<rparr>"
  have pre: "wait_loop cl cid poll mw start w = wait_loop cl cid poll mw start ?w1"
    using assms(1-4) by (rule wait_loop_prefix)
  have "script ?w1 = (d, r) # rest" by simp
  from get_container_status_snapshot [OF this assms(5), of cl cid]
  have g: "get_container_status cl cid ?w1 = (Return st, w')"
    unfolding w'_def by (cases w) (simp add: replicate_append_same)
  show "status st = FINISHED \<Longrightarrow> wait_loop cl cid poll mw start w = (Return st, w')"
    unfolding pre by (subst wait_loop.simps) (simp add: g is_ready_def)
  show "status st = ERROR \<Longrightarrow> wait_loop cl cid poll mw start w =
           (Raise (ContainerError [S ''Container processing failed: '',
                     S (str_opt (error_message st))]), w')"
    unfolding pre by (subst wait_loop.simps) (simp add: g is_ready_def has_error_def)
  show "status st = EXPIRED \<Longrightarrow> wait_loop cl cid poll mw start w =
           (Raise (ContainerError [S ''Container expired before publishing'']), w')"
    unfolding pre by (subst wait_loop.simps) (simp add: g is_ready_def has_error_def)
  show "non_terminal r \<Longrightarrow> mw \<le> now w' - start \<Longrightarrow>
           wait_loop cl cid poll mw start w = (Raise (timeout_error mw (status st)), w')"
    unfolding pre
    by (subst wait_loop.simps)
       (auto simp: g is_ready_def has_error_def non_terminal_def assms(5) timeout_error_def)
qed

lemma new_calls_append: "calls w' = calls w @ xs \<Longrightarrow> new_calls w w' = xs"
  by (simp add: new_calls_def)

text \<open>
  C1, as the code has it. For every container id and every sequence of status-fetch
  replies whose last one is a FINISHED snapshot and whose earlier ones are snapshots
  that are not terminal (IN_PROGRESS or PUBLISHED), each of them fetched before
  \<open>max_wait_time\<close> has elapsed, and with a poll interval that is not negative, the
  poller returns that FINISHED snapshot, performs exactly as many status fetches as
  the sequence has elements, and leaves the replies after it untouched.
\<close>

theorem poller_converges:
  assumes "0 \<le> poll_interval"
    and "script w = pre @ (d, r) # rest"
    and "list_all (\<lambda>x. non_terminal (snd x)) pre"
    and "in_time poll_interval max_wait_time 0 (map fst pre)"
    and "snapshot_of r = Some st" and "status st = FINISHED"
  shows "\<exists>w'. wait_for_container cl container_id poll_interval max_wait_time w = (Return st, w')
           \<and> new_calls w w' = replicate (length pre + 1) (status_request cl container_id)
           \<and> script w' = rest"
proof -
  have "in_time poll_interval max_wait_time (now w - now w) (map fst pre)"
    using assms(4) by simp
  from wait_loop_last(1) [OF assms(1) assms(3) this assms(2) assms(5) assms(6)]
  show ?thesis
    by (simp add: wait_for_container_def new_calls_def)
qed

theorem poller_converges_witness:
  "(let w = world_with [(1/10, status_body ''c1'' ''IN_PROGRESS''),
                         (1/10, status_body ''c1'' ''PUBLISHED''),
                         (1/10, status_body ''c1'' ''FINISHED'')];
        res = wait_for_container example_client ''c1'' 1 60 w
    in fst res = Return \<lparr>mcs_id = ''c1'', status = FINISHED, error_message = None\<rparr>
       \<and> length (new_calls w (snd res)) = 3 \<and> script (snd res) = [])"
  using poller_converges [where poll_interval = 1 and max_wait_time = 60
      and w = "world_with [(1/10, status_body ''c1'' ''IN_PROGRESS''),
                         (1/10, status_body ''c1'' ''PUBLISHED''),
                         (1/10, status_body ''c1'' ''FINISHED'')]"
      and pre = "[(1/10, status_body ''c1'' ''IN_PROGRESS''),
                         (1/10, status_body ''c1'' ''PUBLISHED'')]"
      and d = "1/10" and r = "status_body ''c1'' ''FINISHED''" and rest = "[]"
      and st = "\<lparr>mcs_id = ''c1'', status = FINISHED, error_message = None\<rparr>"
      and cl = example_client and container_id = "''c1''"]
  by (auto simp: world_with_def status_body_def non_terminal_def
      MediaContainerStatus_model_validate_def ContainerStatus_of_value_def Let_def)

text \<open>
  C1 as stated fails. An IN_PROGRESS reply that arrives after \<open>max_wait_time\<close> makes
  the poller raise the timeout error after one fetch, although FINISHED is next. A
  reply whose status string is not a member of \<open>ContainerStatus\<close> is no snapshot: the
  fetch raises a validation error, which ends the poller after one fetch.
\<close>

theorem poller_converges_counterexample:
  "(let w = world_with [(61, status_body ''c1'' ''IN_PROGRESS''),
                         (0, status_body ''c1'' ''FINISHED'')];
        res = wait_for_container example_client ''c1'' 1 60 w
    in fst res = Raise (timeout_error 60 IN_PROGRESS)
       \<and> length (new_calls w (snd res)) = 1
       \<and> script (snd res) = [(0, status_body ''c1'' ''FINISHED'')])
   \<and> (let w = world_with [(0, status_body ''c1'' ''PROCESSING''),
                            (0, status_body ''c1'' ''FINISHED'')];
           res = wait_for_container example_client ''c1'' 1 60 w
       in fst res = Raise PydanticValidationError
          \<and> length (new_calls w (snd res)) = 1)"
proof -
  have a: "wait_loop example_client ''c1'' 1 60 0
             (world_with [(61, status_body ''c1'' ''IN_PROGRESS''),
                          (0, status_body ''c1'' ''FINISHED'')])
           = (Raise (timeout_error 60 IN_PROGRESS),
              \<lparr>now = 61, script = [(0, status_body ''c1'' ''FINISHED'')],
               calls = [status_request example_client ''c1'']\<rparr>)"
    by (subst wait_loop.simps)
       (simp add: eval_defs get_container_status_def http_json_def status_request_def
          is_ready_def has_error_def)
  have b: "wait_loop example_client ''c1'' 1 60 0
             (world_with [(0, status_body ''c1'' ''PROCESSING''),
                          (0, status_body ''c1'' ''FINISHED'')])
           = (Raise PydanticValidationError,
              \<lparr>now = 0, script = [(0, status_body ''c1'' ''FINISHED'')],
               calls = [status_request example_client ''c1'']\<rparr>)"
    by (subst wait_loop.simps)
       (simp add: eval_defs get_container_status_def http_json_def status_request_def)
  have n: "now (world_with xs) = 0" for xs by (simp add: world_with_def)
  show ?thesis
    unfolding Let_def wait_for_container_def n a b
    by (simp add: new_calls_def world_with_def)
qed

text \<open>
  C3. For every status sequence in which a fetch returns ERROR before any FINISHED is
  observed (the earlier fetches returned snapshots that are not terminal, in time), the
  poller fails with the container error whose message ends with the snapshot's
  \<open>error_message\<close>, has performed one fetch per element up to and including the ERROR
  one, and fetches nothing after it: the remaining replies are untouched.
\<close>

theorem poller_error_terminal:
  assumes "0 \<le> poll_interval"
    and "script w = pre @ (d, r) # rest"
    and "list_all (\<lambda>x. non_terminal (snd x)) pre"
    and "in_time poll_interval max_wait_time 0 (map fst pre)"
    and "snapshot_of r = Some st" and "status st = ERROR"
  shows "\<exists>w'. wait_for_container cl container_id poll_interval max_wait_time w
               = (Raise (ContainerError [S ''Container processing failed: '',
                           S (str_opt (error_message st))]), w')
           \<and> new_calls w w' = replicate (length pre + 1) (status_request cl container_id)
           \<and> script w' = rest"
proof -
  have "in_time poll_interval max_wait_time (now w - now w) (map fst pre)"
    using assms(4) by simp
  from wait_loop_last(2) [OF assms(1) assms(3) this assms(2) assms(5) assms(6)]
  show ?thesis
    by (simp add: wait_for_container_def new_calls_def)
qed

theorem poller_error_terminal_witness:
  "(let w = world_with [(1/10, status_body ''c1'' ''IN_PROGRESS''),
                         (1/10, error_body ''c1'' ''Invalid video format''),
                         (1/10, status_body ''c1'' ''FINISHED'')];
        res = wait_for_container example_client ''c1'' 1 60 w
    in fst res = Raise (ContainerError [S ''Container processing failed: '',
                          S ''Invalid video format''])
       \<and> length (new_calls w (snd res)) = 2
       \<and> script (snd res) = [(1/10, status_body ''c1'' ''FINISHED'')])"
  using poller_error_terminal [where poll_interval = 1 and max_wait_time = 60
      and w = "world_with [(1/10, status_body ''c1'' ''IN_PROGRESS''),
                         (1/10, error_body ''c1'' ''Invalid video format''),
                         (1/10, status_body ''c1'' ''FINISHED'')]"
      and pre = "[(1/10, status_body ''c1'' ''IN_PROGRESS'')]"
      and d = "1/10" and r = "error_body ''c1'' ''Invalid video format''"
      and rest = "[(1/10, status_body ''c1'' ''FINISHED'')]"
      and st = "\<lparr>mcs_id = ''c1'', status = ERROR, error_message = Some ''Invalid video format''\<rparr>"
      and cl = example_client and container_id = "''c1''"]
  by (auto simp: eval_defs)

text \<open>
  C2, as the code has it. For \<open>0 < max_wait_time < poll_interval\<close>, when the status
  fetches return snapshots that are not terminal and the clock does not run backwards,
  the poller fails with the timeout error after at least one and at most two fetches:
  one when the first fetch itself takes \<open>max_wait_time\<close> or longer, two otherwise.
\<close>

theorem poller_timeout_floor:
  assumes "0 < max_wait_time" and "max_wait_time < poll_interval"
    and "script w = (d1, r1) # (d2, r2) # rest"
    and "snapshot_of r1 = Some st1" and "non_terminal r1" and "0 \<le> d1"
    and "snapshot_of r2 = Some st2" and "non_terminal r2" and "0 \<le> d2"
  shows "\<exists>w'. wait_for_container cl container_id poll_interval max_wait_time w
               = (Raise (timeout_error max_wait_time
                           (status (if max_wait_time \<le> d1 then st1 else st2))), w')
           \<and> new_calls w w'
               = (if max_wait_time \<le> d1 then [status_request cl container_id]
                  else [status_request cl container_id, status_request cl container_id])"
proof (cases "max_wait_time \<le> d1")
  case True
  from wait_loop_last(4) [where pre = "[]" and w = w and start = "now w"
      and poll = poll_interval and mw = max_wait_time and d = d1 and r = r1
      and rest = "(d2, r2) # rest" and st = st1 and cl = cl and cid = container_id]
    assms True
  show ?thesis
    by (simp add: wait_for_container_def new_calls_def)
next
  case False
  from wait_loop_last(4) [where pre = "[(d1, r1)]" and w = w and start = "now w"
      and poll = poll_interval and mw = max_wait_time and d = d2 and r = r2
      and rest = rest and st = st2 and cl = cl and cid = container_id]
    assms False
  show ?thesis
    by (simp add: wait_for_container_def new_calls_def)
qed

theorem poller_timeout_floor_witness:
  "(let w = world_with [(1, status_body ''c1'' ''IN_PROGRESS''),
                         (0, status_body ''c1'' ''IN_PROGRESS'')];
        res = wait_for_container example_client ''c1'' 2 (1/2) w
    in fst res = Raise (timeout_error (1/2) IN_PROGRESS)
       \<and> length (new_calls w (snd res)) = 1)"
  using poller_timeout_floor [where poll_interval = 2 and max_wait_time = "1/2"
      and w = "world_with [(1, status_body ''c1'' ''IN_PROGRESS''),
                         (0, status_body ''c1'' ''IN_PROGRESS'')]"
      and ?d1.0 = 1 and ?r1.0 = "status_body ''c1'' ''IN_PROGRESS''"
      and ?d2.0 = 0 and ?r2.0 = "status_body ''c1'' ''IN_PROGRESS''" and rest = "[]"
      and ?st1.0 = "\<lparr>mcs_id = ''c1'', status = IN_PROGRESS, error_message = None\<rparr>"
      and ?st2.0 = "\<lparr>mcs_id = ''c1'', status = IN_PROGRESS, error_message = None\<rparr>"
      and cl = example_client and container_id = "''c1''"]
  by (auto simp: eval_defs)

text \<open>
  C2 as stated fails: with a first fetch that returns at once, the deadline has not
  passed when it is checked, the poller sleeps and fetches a second time.
\<close>

theorem poller_timeout_floor_counterexample:
  "0 < (1/2 :: real) \<and> (1/2 :: real) < 1
   \<and> (let w = world_with [(0, status_body ''c1'' ''IN_PROGRESS''),
                         (0, status_body ''c1'' ''IN_PROGRESS'')];
        res = wait_for_container example_client ''c1'' 1 (1/2) w
    in fst res = Raise (timeout_error (1/2) IN_PROGRESS)
       \<and> length (new_calls w (snd res)) = 2)"
proof -
  have "wait_loop example_client ''c1'' 1 (1/2) 0
             (world_with [(0, status_body ''c1'' ''IN_PROGRESS''),
                          (0, status_body ''c1'' ''IN_PROGRESS'')])
           = (Raise (timeout_error (1/2) IN_PROGRESS),
              \<lparr>now = 1, script = [],
               calls = [status_request example_client ''c1'',
                        status_request example_client ''c1'']\<rparr>)"
    apply (subst wait_loop.simps)
    apply (simp add: eval_defs get_container_status_def http_json_def status_request_def
          is_ready_def has_error_def sleep_def)
    apply (subst wait_loop.simps)
    apply (simp add: eval_defs get_container_status_def http_json_def status_request_def
          is_ready_def has_error_def sleep_def)
    done
  moreover have "now (world_with xs) = 0" for xs by (simp add: world_with_def)
  ultimately show ?thesis
    unfolding Let_def wait_for_container_def
    by (simp add: new_calls_def world_with_def)
qed

section \<open>Status strings the enumeration does not know\<close>




section \<open>The rate limiter's window\<close>












section \<open>Create and publish\<close>

lemma http_json_calls:
  "http_json m p ps w = (Return x, w1) \<Longrightarrow>
     calls w1 = calls w @ [\<lparr>req_method = m, path = p, params = ps\<rparr>]"
  by (auto simp: http_json_def Let_def split: list.splits reply.splits option.splits)

lemma create_container_Return:
  assumes "create_container cl u mt t i v ci ch rt rc w = (Return c, w1)"
  shows "\<exists>ps. calls w1 = calls w @ [\<lparr>req_method = POST, path = [S ''/'', S u, S ''/threads''],
                                       params = ps\<rparr>]"
    and "validate_text_length t MAX_TEXT_LENGTH = Inr ()"
proof -
  from assms obtain ps where ps: "validate_and_build_params cl u mt t i v ci ch rt rc = Inr ps"
    by (auto simp: create_container_def split: sum.splits)
  from assms ps obtain x where "http_json POST [S ''/'', S u, S ''/threads''] ps w = (Return x, w1)"
    by (auto simp: create_container_def split: sum.splits prod.splits outcome.splits if_splits)
  from http_json_calls [OF this]
  show "\<exists>ps. calls w1 = calls w @ [\<lparr>req_method = POST, path = [S ''/'', S u, S ''/threads''],
                                       params = ps\<rparr>]"
    by blast
  from ps show "validate_text_length t MAX_TEXT_LENGTH = Inr ()"
    by (auto simp: validate_and_build_params_def split: sum.splits)
qed



lemmas run_defs = create_and_publish_def validate_publish_params_def validate_text_length_def
  MAX_TEXT_LENGTH_def determine_media_type_def create_container_def
  validate_and_build_params_def validate_media_url_def example_client_def extension_of_def
  lower_char_def SUPPORTED_VIDEO_FORMATS_def http_json_def get_params_def id_body_def
  MediaContainer_init_def List.map_filter_def


text \<open>
  C4. For every \<open>create_and_publish\<close> call that supplies a video url with
  \<open>wait_for_ready\<close> true: once the container is created, if a status fetch the
  poller performs returns EXPIRED (the fetches before it returned snapshots that are
  not terminal, in time), the operation fails with the container-expired error, none
  of the requests it issued is a publish request, and the replies after the EXPIRED
  one are untouched.
\<close>

theorem expired_aborts_before_publish:
  assumes "truthy video_url"
    and "create_container cl user_id VIDEO the_text image_url video_url False None
           reply_to_id reply_control w = (Return c, w1)"
    and "0 \<le> poll_interval"
    and "script w1 = pre @ (d, r) # rest"
    and "list_all (\<lambda>x. non_terminal (snd x)) pre"
    and "in_time poll_interval max_wait_time 0 (map fst pre)"
    and "snapshot_of r = Some st" and "status st = EXPIRED"
  shows "\<exists>w'. create_and_publish cl user_id the_text image_url video_url reply_to_id
                 reply_control True poll_interval max_wait_time w
               = (Raise (ContainerError [S ''Container expired before publishing'']), w')
           \<and> \<not> list_ex (is_publish_request user_id) (new_calls w w')
           \<and> script w' = rest"
proof -
  let ?w' = "w1\<lparr>now := now w1 + sum_list (map fst pre) + real (length pre) * poll_interval + d,
                  script := rest,
                  calls := calls w1 @ replicate (length pre + 1) (status_request cl (mc_id c))\<rparr>"
  note cc = create_container_Return [OF assms(2)]
  have v: "validate_publish_params the_text image_url video_url = Inr ()"
    using cc(2) assms(1) by (simp add: validate_publish_params_def)
  have mt: "determine_media_type the_text image_url video_url = VIDEO"
    using assms(1) by (simp add: determine_media_type_def)
  have "in_time poll_interval max_wait_time (now w1 - now w1) (map fst pre)"
    using assms(6) by simp
  from wait_loop_last(3) [OF assms(3) assms(5) this assms(4) assms(7) assms(8)]
  have wt: "wait_for_container cl (mc_id c) poll_interval max_wait_time w1
              = (Raise (ContainerError [S ''Container expired before publishing'']), ?w')"
    by (simp add: wait_for_container_def)
  have res: "create_and_publish cl user_id the_text image_url video_url reply_to_id
               reply_control True poll_interval max_wait_time w
             = (Raise (ContainerError [S ''Container expired before publishing'']), ?w')"
    using assms(1,2) v mt wt by (simp add: create_and_publish_def)
  from cc(1) obtain ps where
    "calls w1 = calls w @ [\<lparr>req_method = POST, path = [S ''/'', S user_id, S ''/threads''],
                            params = ps\<rparr>]"
    by blast
  then have "new_calls w ?w' =
      \<lparr>req_method = POST, path = [S ''/'', S user_id, S ''/threads''], params = ps\<rparr>
        # replicate (length pre + 1) (status_request cl (mc_id c))"
    by (simp add: new_calls_def)
  then have "\<not> list_ex (is_publish_request user_id) (new_calls w ?w')"
    by (auto simp: list_ex_iff is_publish_request_def status_request_def)
  then show ?thesis
    using res by (intro exI [where x = ?w']) simp
qed

theorem expired_aborts_before_publish_witness:
  "(let w = world_with [(0, id_body ''c1''), (0, status_body ''c1'' ''EXPIRED''),
                         (0, id_body ''p1'')];
        res = create_and_publish example_client ''u1'' None None
                (Some ''https://example.com/video.mp4'') None None True 1 60 w
    in fst res = Raise (ContainerError [S ''Container expired before publishing''])
       \<and> \<not> list_ex (is_publish_request ''u1'') (new_calls w (snd res))
       \<and> script (snd res) = [(0, id_body ''p1'')])"
  using expired_aborts_before_publish [where video_url = "Some ''https://example.com/video.mp4''"
      and cl = example_client and user_id = "''u1''" and the_text = None and image_url = None
      and reply_to_id = None and reply_control = None
      and w = "world_with [(0, id_body ''c1''), (0, status_body ''c1'' ''EXPIRED''),
                         (0, id_body ''p1'')]"
      and c = "\<lparr>mc_id = ''c1''\<rparr>"
      and ?w1.0 = "snd (create_container example_client ''u1'' VIDEO None None
                     (Some ''https://example.com/video.mp4'') False None None None
                     (world_with [(0, id_body ''c1''), (0, status_body ''c1'' ''EXPIRED''),
                         (0, id_body ''p1'')]))"
      and poll_interval = 1 and max_wait_time = 60 and pre = "[]" and d = 0
      and r = "status_body ''c1'' ''EXPIRED''" and rest = "[(0, id_body ''p1'')]"
      and st = "\<lparr>mcs_id = ''c1'', status = EXPIRED, error_message = None\<rparr>"]
  by (auto simp: eval_defs run_defs)





end
